theory Spec2Isabelle
  imports Main "HOL-Library.AList" "HOL-Library.Sublist"
begin

section \<open>The documentation configuration \<open>docs/conf.py\<close>\<close>

text \<open>
  The module is a straight line of top-level bindings: four literal values and one
  function definition. The values are modelled as Python values, so that "is a list of
  strings", "is a boolean" and "is an integer" are statements about the value and not
  about a type chosen for it.
\<close>

subsection \<open>Python values\<close>

datatype py_value =
    PyNone
  | PyBool bool
  | PyInt int
  | PyStr string
  | PyList "py_value list"
  | PyDict "(string \<times> py_value) list"
  | PyFunction string

subsection \<open>The extension list\<close>

text \<open>
  \<^verbatim>\<open>
  extensions = [
      "sphinx.ext.autodoc",
      "sphinx.ext.napoleon",
      "sphinx.ext.mathjax",
      "sphinx.ext.viewcode",
      'sphinx.ext.graphviz',
      "sphinxcontrib.mermaid",
  ]
  \<close>
\<close>

definition extensions :: py_value where
  "extensions = PyList
     [PyStr ''sphinx.ext.autodoc'',
      PyStr ''sphinx.ext.napoleon'',
      PyStr ''sphinx.ext.mathjax'',
      PyStr ''sphinx.ext.viewcode'',
      PyStr ''sphinx.ext.graphviz'',
      PyStr ''sphinxcontrib.mermaid'']"

text \<open>The items of a list value, and the text of a string value.\<close>

fun py_items :: "py_value \<Rightarrow> py_value list option" where
  "py_items (PyList vs) = Some vs"
| "py_items _ = None"

fun py_str :: "py_value \<Rightarrow> string option" where
  "py_str (PyStr s) = Some s"
| "py_str _ = None"

text \<open>
  The names of a list of strings: \<open>None\<close> when the value is not a list or holds an item
  that is not a string.
\<close>

fun those_strs :: "py_value list \<Rightarrow> string list option" where
  "those_strs [] = Some []"
| "those_strs (v # vs) =
     (case py_str v of
        None \<Rightarrow> None
      | Some s \<Rightarrow> (case those_strs vs of None \<Rightarrow> None | Some ss \<Rightarrow> Some (s # ss)))"

definition str_list :: "py_value \<Rightarrow> string list option" where
  "str_list v = (case py_items v of None \<Rightarrow> None | Some vs \<Rightarrow> those_strs vs)"

subsection \<open>The application handle and the setup entry point\<close>

text \<open>
  The engine hands \<open>setup\<close> its application object. What the configuration can reach
  through it is the asset registry: the stylesheets and the scripts registered so far, in
  order. Everything else the application holds is the record's extension.
\<close>

record app =
  css_files :: "string list"
  js_files :: "string list"

text \<open>
  Modelled from the spec: \<open>add_css_file\<close> is a method of the engine's application
  object and is not part of the repository. Section 4.2 of the spec says that a
  registration adds one stylesheet asset "without removing or overriding any asset
  already registered": the path is appended to the stylesheet registry and nothing else
  of the application changes.
\<close>

definition add_css_file :: "string \<Rightarrow> 'a app_scheme \<Rightarrow> 'a app_scheme" where
  "add_css_file filename a = a\<lparr>css_files := css_files a @ [filename]\<rparr>"

text \<open>The namespace of the module: a Python dict from names to values, in insertion order.\<close>

type_synonym namespace = "(string \<times> py_value) list"

text \<open>
  \<^verbatim>\<open>
  def setup(app):
      # Add custom CSS without overriding the theme
      app.add_css_file("assets/css/custom.css")
      # app.add_js_file("assets/js/custom.js")  # optional
  \<close>
  A call runs against the application handle and the module's globals, and returns the
  value of the call with both as the body leaves them. The body has one statement, the
  call of \<open>add_css_file\<close>; it binds no global and has no \<open>return\<close>, so the call
  returns \<open>None\<close>. (The name \<open>setup\<close> is a keyword of Isabelle, hence the suffix.)
\<close>

definition setup_app :: "'a app_scheme \<Rightarrow> namespace \<Rightarrow> py_value \<times> 'a app_scheme \<times> namespace" where
  "setup_app a globals = (PyNone, add_css_file ''assets/css/custom.css'' a, globals)"

text \<open>The three parts of the outcome of a call.\<close>

definition returned :: "py_value \<times> 'a app_scheme \<times> namespace \<Rightarrow> py_value" where
  "returned r = fst r"

definition handle_after :: "py_value \<times> 'a app_scheme \<times> namespace \<Rightarrow> 'a app_scheme" where
  "handle_after r = fst (snd r)"

definition globals_after :: "py_value \<times> 'a app_scheme \<times> namespace \<Rightarrow> namespace" where
  "globals_after r = snd (snd r)"

subsection \<open>Theme options, strictness flag and epilog\<close>

text \<open>
  \<^verbatim>\<open>
  html_theme_options = {
      "use_download_button": True,
      "navigation_depth": 4,
  }
  nitpicky = False
  rst_epilog = """
  .. |project| replace:: CFSpy
  """
  \<close>
  The triple-quoted string starts with the line break after the opening quotes and ends
  with the one before the closing quotes.
\<close>

definition html_theme_options :: py_value where
  "html_theme_options = PyDict
     [(''use_download_button'', PyBool True),
      (''navigation_depth'', PyInt 4)]"

definition nitpicky :: py_value where
  "nitpicky = PyBool False"

definition rst_epilog :: py_value where
  "rst_epilog = PyStr (CHR 0x0A # ''.. |project| replace:: CFSpy'' @ [CHR 0x0A])"

text \<open>Reading a value: the keys of a dict, the value under a key, a boolean.\<close>

fun py_keys :: "py_value \<Rightarrow> string list option" where
  "py_keys (PyDict d) = Some (map fst d)"
| "py_keys _ = None"

fun py_get :: "py_value \<Rightarrow> string \<Rightarrow> py_value option" where
  "py_get (PyDict d) k = map_of d k"
| "py_get _ k = None"

fun py_bool :: "py_value \<Rightarrow> bool option" where
  "py_bool (PyBool b) = Some b"
| "py_bool _ = None"

subsection \<open>Evaluating the module\<close>

text \<open>
  The statements of the module in source order. Each one binds a name in the module's
  namespace: four assignments of a literal and the \<open>def\<close> of \<open>setup\<close>, which binds
  the name to the function object. No statement reads a name, so none can fail.
\<close>

definition conf_py :: "(string \<times> py_value) list" where
  "conf_py =
     [(''extensions'', extensions),
      (''setup'', PyFunction ''setup''),
      (''html_theme_options'', html_theme_options),
      (''nitpicky'', nitpicky),
      (''rst_epilog'', rst_epilog)]"

text \<open>
  Binding a name in a Python dict: an existing key keeps its place and takes the new
  value, a new key goes to the end. The engine evaluates the module in a namespace it
  has prepared, so the evaluation starts from any namespace: the namespace as the first
  statement finds it, with whatever the engine and the interpreter have put there
  (\<open>__file__\<close>, \<open>tags\<close>, \<open>__builtins__\<close>).
\<close>

definition bind_name :: "string \<Rightarrow> py_value \<Rightarrow> namespace \<Rightarrow> namespace" where
  "bind_name name v ns = AList.update name v ns"

fun exec_module :: "(string \<times> py_value) list \<Rightarrow> namespace \<Rightarrow> namespace" where
  "exec_module [] ns = ns"
| "exec_module ((name, v) # stmts) ns = exec_module stmts (bind_name name v ns)"

definition lookup :: "namespace \<Rightarrow> string \<Rightarrow> py_value option" where
  "lookup ns name = map_of ns name"

subsection \<open>The module as statements\<close>

text \<open>
  The same module statement by statement, with its right-hand sides as the expressions
  of the source and not as their values, under an evaluation that can fail. The
  statement and expression forms are those of Python's grammar that a configuration
  module of this kind can hold: bindings, and the forms by which a module would branch,
  recover, fail or check a value.
\<close>

text \<open>The exceptions these forms can raise.\<close>

datatype py_error = NameError string | AssertionError | Raised string

text \<open>
  Expressions: a literal constant, the read of a name, a list display and a dict display
  with string keys.
\<close>

datatype expr =
    Constant py_value
  | Name string
  | ListDisplay "expr list"
  | DictDisplay "(string \<times> expr) list"

text \<open>
  Statements: an assignment, a \<open>def\<close> (the body is not run by the definition; the body
  of \<open>setup\<close> is \<open>setup_app\<close> above), \<open>if\<close> with its \<open>else\<close> block,
  \<open>try\<close> with a handler that catches every exception, \<open>raise\<close> of a named
  exception and \<open>assert\<close>.
\<close>

datatype stmt =
    Assign string expr
  | FunctionDef string
  | IfStmt expr "stmt list" "stmt list"
  | TryExcept "stmt list" "stmt list"
  | RaiseStmt string
  | AssertStmt expr

text \<open>Python's truth value of a value.\<close>

fun truthy :: "py_value \<Rightarrow> bool" where
  "truthy PyNone = False"
| "truthy (PyBool b) = b"
| "truthy (PyInt n) = (n \<noteq> 0)"
| "truthy (PyStr s) = (s \<noteq> [])"
| "truthy (PyList vs) = (vs \<noteq> [])"
| "truthy (PyDict d) = (d \<noteq> [])"
| "truthy (PyFunction f) = True"

text \<open>
  Evaluating an expression in a namespace. The read of an unbound name raises
  \<open>NameError\<close>; the items of a display are evaluated from left to right, and a dict
  display inserts its pairs in that order.
\<close>

fun eval_expr :: "namespace \<Rightarrow> expr \<Rightarrow> py_error + py_value"
  and eval_items :: "namespace \<Rightarrow> expr list \<Rightarrow> py_error + py_value list"
  and eval_pairs :: "namespace \<Rightarrow> (string \<times> py_value) list \<Rightarrow> (string \<times> expr) list
                      \<Rightarrow> py_error + (string \<times> py_value) list"
where
  "eval_expr ns (Constant v) = Inr v"
| "eval_expr ns (Name x) = (case map_of ns x of None \<Rightarrow> Inl (NameError x) | Some v \<Rightarrow> Inr v)"
| "eval_expr ns (ListDisplay es) =
     (case eval_items ns es of Inl e \<Rightarrow> Inl e | Inr vs \<Rightarrow> Inr (PyList vs))"
| "eval_expr ns (DictDisplay kes) =
     (case eval_pairs ns [] kes of Inl e \<Rightarrow> Inl e | Inr d \<Rightarrow> Inr (PyDict d))"
| "eval_items ns [] = Inr []"
| "eval_items ns (e # es) =
     (case eval_expr ns e of
        Inl err \<Rightarrow> Inl err
      | Inr v \<Rightarrow> (case eval_items ns es of Inl err \<Rightarrow> Inl err | Inr vs \<Rightarrow> Inr (v # vs)))"
| "eval_pairs ns d [] = Inr d"
| "eval_pairs ns d ((k, e) # kes) =
     (case eval_expr ns e of
        Inl err \<Rightarrow> Inl err
      | Inr v \<Rightarrow> eval_pairs ns (AList.update k v d) kes)"

text \<open>
  Running a statement and a block. The outcome is the exception raised, if any, and the
  namespace as the run leaves it. A block stops at the first statement that raises; a
  handler runs in the namespace the failed block has left.
\<close>

fun exec_stmt :: "stmt \<Rightarrow> namespace \<Rightarrow> py_error option \<times> namespace"
  and exec_block :: "stmt list \<Rightarrow> namespace \<Rightarrow> py_error option \<times> namespace"
where
  "exec_stmt (Assign x e) ns =
     (case eval_expr ns e of Inl err \<Rightarrow> (Some err, ns) | Inr v \<Rightarrow> (None, bind_name x v ns))"
| "exec_stmt (FunctionDef f) ns = (None, bind_name f (PyFunction f) ns)"
| "exec_stmt (IfStmt c body orelse) ns =
     (case eval_expr ns c of
        Inl err \<Rightarrow> (Some err, ns)
      | Inr v \<Rightarrow> (if truthy v then exec_block body ns else exec_block orelse ns))"
| "exec_stmt (TryExcept body handler) ns =
     (case exec_block body ns of
        (None, ns') \<Rightarrow> (None, ns')
      | (Some err, ns') \<Rightarrow> exec_block handler ns')"
| "exec_stmt (RaiseStmt exc) ns = (Some (Raised exc), ns)"
| "exec_stmt (AssertStmt c) ns =
     (case eval_expr ns c of
        Inl err \<Rightarrow> (Some err, ns)
      | Inr v \<Rightarrow> (if truthy v then (None, ns) else (Some AssertionError, ns)))"
| "exec_block [] ns = (None, ns)"
| "exec_block (s # ss) ns =
     (case exec_stmt s ns of
        (None, ns') \<Rightarrow> exec_block ss ns'
      | (Some err, ns') \<Rightarrow> (Some err, ns'))"

text \<open>The names an expression, a statement and a block read.\<close>

fun expr_reads :: "expr \<Rightarrow> string list"
  and items_reads :: "expr list \<Rightarrow> string list"
  and pairs_reads :: "(string \<times> expr) list \<Rightarrow> string list"
where
  "expr_reads (Constant v) = []"
| "expr_reads (Name x) = [x]"
| "expr_reads (ListDisplay es) = items_reads es"
| "expr_reads (DictDisplay kes) = pairs_reads kes"
| "items_reads [] = []"
| "items_reads (e # es) = expr_reads e @ items_reads es"
| "pairs_reads [] = []"
| "pairs_reads ((k, e) # kes) = expr_reads e @ pairs_reads kes"

fun stmt_reads :: "stmt \<Rightarrow> string list"
  and block_reads :: "stmt list \<Rightarrow> string list"
where
  "stmt_reads (Assign x e) = expr_reads e"
| "stmt_reads (FunctionDef f) = []"
| "stmt_reads (IfStmt c body orelse) = expr_reads c @ block_reads body @ block_reads orelse"
| "stmt_reads (TryExcept body handler) = block_reads body @ block_reads handler"
| "stmt_reads (RaiseStmt exc) = []"
| "stmt_reads (AssertStmt c) = expr_reads c"
| "block_reads [] = []"
| "block_reads (s # ss) = stmt_reads s @ block_reads ss"

text \<open>The name a statement binds, for the two binding forms; \<open>None\<close> for every other form.\<close>

fun binds :: "stmt \<Rightarrow> string option" where
  "binds (Assign x e) = Some x"
| "binds (FunctionDef f) = Some f"
| "binds _ = None"

text \<open>
  The five statements of \<open>conf.py\<close> in source order, comments left out:
  \<^verbatim>\<open>
  extensions = ["sphinx.ext.autodoc", "sphinx.ext.napoleon", "sphinx.ext.mathjax",
                "sphinx.ext.viewcode", 'sphinx.ext.graphviz', "sphinxcontrib.mermaid"]
  def setup(app): ...
  html_theme_options = {"use_download_button": True, "navigation_depth": 4}
  nitpicky = False
  rst_epilog = """
  .. |project| replace:: CFSpy
  """
  \<close>
\<close>

definition conf_module :: "stmt list" where
  "conf_module =
     [Assign ''extensions'' (ListDisplay
        [Constant (PyStr ''sphinx.ext.autodoc''),
         Constant (PyStr ''sphinx.ext.napoleon''),
         Constant (PyStr ''sphinx.ext.mathjax''),
         Constant (PyStr ''sphinx.ext.viewcode''),
         Constant (PyStr ''sphinx.ext.graphviz''),
         Constant (PyStr ''sphinxcontrib.mermaid'')]),
      FunctionDef ''setup'',
      Assign ''html_theme_options'' (DictDisplay
        [(''use_download_button'', Constant (PyBool True)),
         (''navigation_depth'', Constant (PyInt 4))]),
      Assign ''nitpicky'' (Constant (PyBool False)),
      Assign ''rst_epilog'' (Constant
        (PyStr (CHR 0x0A # ''.. |project| replace:: CFSpy'' @ [CHR 0x0A])))]"

subsection \<open>The epilog's substitution rule\<close>

text \<open>
  The module only declares the epilog text. Reading the rules out of it and applying them
  to a source document is the engine's work and is not part of the repository; the
  definitions of this subsection follow the spec, which calls the entity a "mapping of
  symbolic name \<rightarrow> replacement text", "applied via simple textual substitution wherever
  the symbolic name is referenced in source documents".
\<close>

text \<open>
  Modelled from the spec: the engine's reader of the epilog, which is missing from the
  repository, takes the text line by line. The lines of a text, split at line breaks.
\<close>

fun lines_of :: "string \<Rightarrow> string list" where
  "lines_of [] = [[]]"
| "lines_of (c # cs) =
     (if c = CHR 0x0A then [] # lines_of cs
      else (case lines_of cs of [] \<Rightarrow> [[c]] | l # ls \<Rightarrow> (c # l) # ls))"

text \<open>
  Modelled from the spec: the engine's reader of one epilog line, missing from the
  repository. A line \<open>.. |name| replace:: text\<close> defines the rule from the symbolic
  name \<open>name\<close> to the replacement \<open>text\<close>; any other line defines none.
\<close>

definition rule_of_line :: "string \<Rightarrow> (string \<times> string) option" where
  "rule_of_line l =
     (if prefix ''.. |'' l then
        (let rest = drop 4 l;
             name = takeWhile (\<lambda>c. c \<noteq> CHR ''|'') rest;
             after = drop (length name) rest
         in if name \<noteq> [] \<and> prefix ''| replace:: '' after
            then Some (name, drop 12 after) else None)
      else None)"

text \<open>
  Modelled from the spec: the substitution table the engine builds from the epilog,
  missing from the repository: the rules of its lines, in order.
\<close>

definition substitution_table :: "py_value \<Rightarrow> (string \<times> string) list" where
  "substitution_table epilog =
     (case py_str epilog of
        None \<Rightarrow> []
      | Some s \<Rightarrow> List.map_filter rule_of_line (lines_of s))"

text \<open>
  Modelled from the spec: the engine's "simple textual substitution", missing from the
  repository. From left to right, every occurrence of the token is replaced by the
  replacement and every other character is copied.
\<close>

fun substitute :: "string \<Rightarrow> string \<Rightarrow> string \<Rightarrow> string" where
  "substitute tok rep [] = []"
| "substitute tok rep (c # cs) =
     (if tok \<noteq> [] \<and> prefix tok (c # cs)
      then rep @ substitute tok rep (drop (length tok) (c # cs))
      else c # substitute tok rep cs)"

text \<open>
  Modelled from the spec: applying one rule, missing from the repository. A reference to
  a symbolic name is the name between two bars.
\<close>

definition apply_rule :: "string \<times> string \<Rightarrow> string \<Rightarrow> string" where
  "apply_rule r doc = substitute (''|'' @ fst r @ ''|'') (snd r) doc"

text \<open>
  Modelled from the spec: rendering a source document under an epilog, missing from the
  repository: the rules of the epilog's table are applied to the document in order.
\<close>

definition render :: "py_value \<Rightarrow> string \<Rightarrow> string" where
  "render epilog doc = fold apply_rule (substitution_table epilog) doc"

text \<open>
  The text around the references: a document split at the occurrences of a token, taken
  from the left (Python's \<open>str.split\<close>), and pieces put together again around a
  separator (Python's \<open>str.join\<close>). They state what a substitution does without
  naming it.
\<close>

fun split_on :: "string \<Rightarrow> string \<Rightarrow> string list" where
  "split_on tok [] = [[]]"
| "split_on tok (c # cs) =
     (if tok \<noteq> [] \<and> prefix tok (c # cs)
      then [] # split_on tok (drop (length tok) (c # cs))
      else (case split_on tok cs of [] \<Rightarrow> [[c]] | p # ps \<Rightarrow> (c # p) # ps))"

fun join :: "string \<Rightarrow> string list \<Rightarrow> string" where
  "join sep [] = []"
| "join sep [p] = p"
| "join sep (p # q # ps) = p @ sep @ join sep (q # ps)"

section \<open>The declared values\<close>

text \<open>
  C1: the declared extension registry is an ordered sequence of exactly six identifier
  strings: autodoc, napoleon, mathjax, viewcode, graphviz and mermaid, in that order.
\<close>

theorem extensions_registry:
  "str_list extensions =
     Some [''sphinx.ext.autodoc'', ''sphinx.ext.napoleon'', ''sphinx.ext.mathjax'',
           ''sphinx.ext.viewcode'', ''sphinx.ext.graphviz'', ''sphinxcontrib.mermaid'']
   \<and> map_option length (py_items extensions) = Some 6"
  by (simp add: extensions_def str_list_def)

text \<open>
  C9: the extension list has no duplicate: its six names are pairwise distinct, and none
  of them is the empty string.
\<close>

theorem extensions_distinct_nonempty:
  "\<exists>names. str_list extensions = Some names \<and> length names = 6 \<and> distinct names
     \<and> list_all (\<lambda>n. n \<noteq> []) names"
proof -
  let ?names = "[''sphinx.ext.autodoc'', ''sphinx.ext.napoleon'', ''sphinx.ext.mathjax'',
                 ''sphinx.ext.viewcode'', ''sphinx.ext.graphviz'', ''sphinxcontrib.mermaid'']"
  have "str_list extensions = Some ?names"
    by (simp add: extensions_def str_list_def)
  moreover have "length ?names = 6" by simp
  moreover have "distinct ?names" by simp
  moreover have "list_all (\<lambda>n. n \<noteq> []) ?names" by simp
  ultimately show ?thesis by blast
qed

text \<open>
  C3: the theme option overlay has exactly two keys: \<open>use_download_button\<close>, bound to
  the boolean \<open>True\<close>, and \<open>navigation_depth\<close>, bound to the positive integer
  \<open>4\<close>. Every other key is absent.
\<close>

theorem theme_options_overlay:
  "py_keys html_theme_options = Some [''use_download_button'', ''navigation_depth'']
   \<and> py_get html_theme_options ''use_download_button'' = Some (PyBool True)
   \<and> (\<exists>n. py_get html_theme_options ''navigation_depth'' = Some (PyInt n) \<and> 0 < n \<and> n = 4)
   \<and> py_get html_theme_options k =
        (if k = ''use_download_button'' then Some (PyBool True)
         else if k = ''navigation_depth'' then Some (PyInt 4) else None)"
  by (simp add: html_theme_options_def)

text \<open>
  C4: the strictness flag \<open>nitpicky\<close> is a boolean and its value is \<open>False\<close>,
  whatever namespace the module is evaluated in.
\<close>

theorem nitpicky_false:
  "py_bool nitpicky = Some False
   \<and> lookup (exec_module conf_py ns) ''nitpicky'' = Some (PyBool False)"
  by (simp add: nitpicky_def conf_py_def lookup_def bind_name_def update_conv')

section \<open>The setup entry point\<close>

text \<open>
  C2: for every application handle and every state of the module's globals, a call of
  \<open>setup\<close> returns \<open>None\<close> and leaves the handle as it was but for one stylesheet
  appended to the registry: the registry is one entry longer, the entries registered
  before are all still there in their places, and the scripts, the rest of the
  application and the globals are unchanged.
\<close>

theorem setup_registers_one_stylesheet:
  "setup_app a g = (PyNone, a\<lparr>css_files := css_files a @ [''assets/css/custom.css'']\<rparr>, g)
   \<and> returned (setup_app a g) = PyNone
   \<and> length (css_files (handle_after (setup_app a g))) = Suc (length (css_files a))
   \<and> take (length (css_files a)) (css_files (handle_after (setup_app a g))) = css_files a
   \<and> js_files (handle_after (setup_app a g)) = js_files a
   \<and> app.more (handle_after (setup_app a g)) = app.more a
   \<and> globals_after (setup_app a g) = g"
  by (simp add: setup_app_def add_css_file_def returned_def handle_after_def globals_after_def)

text \<open>
  C8: the one asset that \<open>setup\<close> registers is the stylesheet
  \<open>assets/css/custom.css\<close>. No script is registered: on a handle with empty
  registries the call leaves exactly that stylesheet and no script.
\<close>

theorem setup_asset_is_custom_css:
  "drop (length (css_files a)) (css_files (handle_after (setup_app a g)))
     = [''assets/css/custom.css'']
   \<and> js_files (handle_after (setup_app a g)) = js_files a
   \<and> handle_after (setup_app \<lparr>css_files = [], js_files = []\<rparr> g)
     = \<lparr>css_files = [''assets/css/custom.css''], js_files = []\<rparr>"
  by (simp add: setup_app_def add_css_file_def handle_after_def)

section \<open>Evaluating the module\<close>

text \<open>
  The statements of the module run to the namespace of the evaluation above, from every
  namespace and without an exception.
\<close>

lemma conf_module_runs:
  "exec_block conf_module ns = (None, exec_module conf_py ns)"
  by (simp add: conf_module_def conf_py_def extensions_def html_theme_options_def
      nitpicky_def rst_epilog_def)

text \<open>
  The evaluation can fail on other modules: a module that went on to assert the strictness
  flag would raise, and so would one whose extension list read an unbound name.
\<close>

lemma checked_module_raises:
  "fst (exec_block (conf_module @ [AssertStmt (Name ''nitpicky'')]) ns) = Some AssertionError"
  by (simp add: conf_module_def bind_name_def update_conv')

lemma reading_module_raises:
  "exec_block [Assign ''extensions'' (ListDisplay [Name ''autodoc''])] [] = (Some (NameError ''autodoc''), [])"
  by simp

text \<open>
  C6: from every namespace the statements of the module run without raising, and leave
  the five names bound to the declared values. Every statement is a binding, an
  assignment or the \<open>def\<close>, in this order: there is no \<open>if\<close>, no \<open>try\<close>,
  no \<open>raise\<close> and no \<open>assert\<close>. No statement reads a name, so no declared
  value is looked at again, let alone validated.
\<close>

theorem conf_py_evaluates:
  "exec_block conf_module ns = (None, exec_module conf_py ns)
   \<and> map (lookup (snd (exec_block conf_module ns)))
         [''extensions'', ''setup'', ''html_theme_options'', ''nitpicky'', ''rst_epilog'']
       = [Some extensions, Some (PyFunction ''setup''), Some html_theme_options,
          Some nitpicky, Some rst_epilog]
   \<and> map binds conf_module
       = [Some ''extensions'', Some ''setup'', Some ''html_theme_options'', Some ''nitpicky'',
          Some ''rst_epilog'']
   \<and> block_reads conf_module = []"
proof -
  have run: "exec_block conf_module ns = (None, exec_module conf_py ns)"
    by (rule conf_module_runs)
  have vals: "map (lookup (exec_module conf_py ns))
         [''extensions'', ''setup'', ''html_theme_options'', ''nitpicky'', ''rst_epilog'']
       = [Some extensions, Some (PyFunction ''setup''), Some html_theme_options,
          Some nitpicky, Some rst_epilog]"
    by (simp add: conf_py_def lookup_def bind_name_def update_conv')
  have kinds: "map binds conf_module
       = [Some ''extensions'', Some ''setup'', Some ''html_theme_options'', Some ''nitpicky'',
          Some ''rst_epilog'']"
    by (simp add: conf_module_def)
  have reads: "block_reads conf_module = []"
    by (simp add: conf_module_def)
  from run vals kinds reads show ?thesis by simp
qed

text \<open>
  C7: each of the four configuration entities is assigned by exactly one statement of the
  module; from that statement on, every later state of the evaluation holds the value
  it was given; and a call of \<open>setup\<close> leaves the globals, the evaluated module's
  among them, as they were.
\<close>

theorem entities_assigned_once:
  "map (\<lambda>n. length (filter (\<lambda>(m, v). m = n) conf_py))
       [''extensions'', ''html_theme_options'', ''nitpicky'', ''rst_epilog''] = [1, 1, 1, 1]
   \<and> map (\<lambda>k. lookup (exec_module (take k conf_py) ns) ''extensions'') [1, 2, 3, 4, 5]
       = replicate 5 (Some extensions)
   \<and> map (\<lambda>k. lookup (exec_module (take k conf_py) ns) ''html_theme_options'') [3, 4, 5]
       = replicate 3 (Some html_theme_options)
   \<and> map (\<lambda>k. lookup (exec_module (take k conf_py) ns) ''nitpicky'') [4, 5]
       = replicate 2 (Some nitpicky)
   \<and> lookup (exec_module (take 5 conf_py) ns) ''rst_epilog'' = Some rst_epilog
   \<and> globals_after (setup_app a g) = g
   \<and> globals_after (setup_app a (exec_module conf_py ns)) = exec_module conf_py ns"
proof -
  have once: "map (\<lambda>n. length (filter (\<lambda>(m, v). m = n) conf_py))
       [''extensions'', ''html_theme_options'', ''nitpicky'', ''rst_epilog''] = [1, 1, 1, 1]"
    by (simp add: conf_py_def)
  have ext: "map (\<lambda>k. lookup (exec_module (take k conf_py) ns) ''extensions'') [1, 2, 3, 4, 5]
       = replicate 5 (Some extensions)"
    by (simp add: conf_py_def lookup_def bind_name_def update_conv' numeral_eq_Suc)
  have opts: "map (\<lambda>k. lookup (exec_module (take k conf_py) ns) ''html_theme_options'') [3, 4, 5]
       = replicate 3 (Some html_theme_options)"
    by (simp add: conf_py_def lookup_def bind_name_def update_conv' numeral_eq_Suc)
  have nit: "map (\<lambda>k. lookup (exec_module (take k conf_py) ns) ''nitpicky'') [4, 5]
       = replicate 2 (Some nitpicky)"
    by (simp add: conf_py_def lookup_def bind_name_def update_conv' numeral_eq_Suc)
  have epi: "lookup (exec_module (take 5 conf_py) ns) ''rst_epilog'' = Some rst_epilog"
    by (simp add: conf_py_def lookup_def bind_name_def update_conv')
  have frame: "globals_after (setup_app a g') = g'" for g'
    by (simp add: setup_app_def globals_after_def)
  from once ext opts nit epi frame show ?thesis by simp
qed

text \<open>
  C10: two evaluations, from whatever namespaces, bind every declared name, and to the
  same value (a function object is identified by its \<open>def\<close>). On two handles
  whose asset registries agree, whatever else the handles hold and whatever the globals,
  \<open>setup\<close> appends the one stylesheet \<open>assets/css/custom.css\<close> on each, leaves
  the scripts of each as they were, returns \<open>None\<close> on each, and so leaves the two
  registries equal.
\<close>

theorem evaluation_deterministic:
  "map (lookup (exec_module conf_py ns1))
       [''extensions'', ''setup'', ''html_theme_options'', ''nitpicky'', ''rst_epilog'']
     = [Some extensions, Some (PyFunction ''setup''), Some html_theme_options,
        Some nitpicky, Some rst_epilog]
   \<and> map (lookup (exec_module conf_py ns2))
       [''extensions'', ''setup'', ''html_theme_options'', ''nitpicky'', ''rst_epilog'']
     = [Some extensions, Some (PyFunction ''setup''), Some html_theme_options,
        Some nitpicky, Some rst_epilog]
   \<and> map (lookup (exec_module conf_py ns1))
       [''extensions'', ''setup'', ''html_theme_options'', ''nitpicky'', ''rst_epilog'']
     = map (lookup (exec_module conf_py ns2))
       [''extensions'', ''setup'', ''html_theme_options'', ''nitpicky'', ''rst_epilog'']
   \<and> (css_files a = css_files b \<and> js_files a = js_files b \<longrightarrow>
        css_files (handle_after (setup_app a g1)) = css_files a @ [''assets/css/custom.css'']
        \<and> css_files (handle_after (setup_app b g2)) = css_files b @ [''assets/css/custom.css'']
        \<and> js_files (handle_after (setup_app a g1)) = js_files a
        \<and> js_files (handle_after (setup_app b g2)) = js_files b
        \<and> returned (setup_app a g1) = PyNone
        \<and> returned (setup_app b g2) = PyNone
        \<and> css_files (handle_after (setup_app a g1)) = css_files (handle_after (setup_app b g2))
        \<and> js_files (handle_after (setup_app a g1)) = js_files (handle_after (setup_app b g2))
        \<and> app.truncate (handle_after (setup_app a g1))
            = app.truncate (handle_after (setup_app b g2))
        \<and> drop (length (css_files a)) (css_files (handle_after (setup_app a g1)))
            = drop (length (css_files b)) (css_files (handle_after (setup_app b g2)))
        \<and> returned (setup_app a g1) = returned (setup_app b g2))"
proof -
  have eval: "map (lookup (exec_module conf_py ns))
       [''extensions'', ''setup'', ''html_theme_options'', ''nitpicky'', ''rst_epilog'']
     = [Some extensions, Some (PyFunction ''setup''), Some html_theme_options,
        Some nitpicky, Some rst_epilog]" for ns
    by (simp add: conf_py_def lookup_def bind_name_def update_conv')
  have css: "css_files (handle_after (setup_app h g)) = css_files h @ [''assets/css/custom.css'']"
    and js: "js_files (handle_after (setup_app h g)) = js_files h"
    and ret: "returned (setup_app h g) = PyNone"
    for h :: "'c app_scheme" and g
    by (simp_all add: setup_app_def add_css_file_def handle_after_def returned_def)
  have trunc: "app.truncate h = \<lparr>css_files = css_files h, js_files = js_files h\<rparr>"
    for h :: "'c app_scheme"
    by (simp add: app.defs)
  show ?thesis
    by (simp only: eval css js ret trunc) simp
qed

text \<open>
  The same on two concrete handles that agree on the registry and differ in the rest of
  the application, called under different globals.
\<close>

theorem evaluation_deterministic_witness:
  "css_files \<lparr>css_files = [''theme.css''], js_files = [''theme.js''], \<dots> = True\<rparr>
     = css_files \<lparr>css_files = [''theme.css''], js_files = [''theme.js''], \<dots> = (7::nat)\<rparr>
   \<and> js_files \<lparr>css_files = [''theme.css''], js_files = [''theme.js''], \<dots> = True\<rparr>
     = js_files \<lparr>css_files = [''theme.css''], js_files = [''theme.js''], \<dots> = (7::nat)\<rparr>
   \<and> css_files (handle_after (setup_app
         \<lparr>css_files = [''theme.css''], js_files = [''theme.js''], \<dots> = True\<rparr> []))
     = [''theme.css'', ''assets/css/custom.css'']
   \<and> css_files (handle_after (setup_app
         \<lparr>css_files = [''theme.css''], js_files = [''theme.js''], \<dots> = (7::nat)\<rparr>
         [(''tags'', PyNone)]))
     = [''theme.css'', ''assets/css/custom.css'']
   \<and> app.truncate (handle_after (setup_app
         \<lparr>css_files = [''theme.css''], js_files = [''theme.js''], \<dots> = True\<rparr> []))
     = app.truncate (handle_after (setup_app
         \<lparr>css_files = [''theme.css''], js_files = [''theme.js''], \<dots> = (7::nat)\<rparr>
         [(''tags'', PyNone)]))"
  using evaluation_deterministic
    [where ?ns1.0 = "[]" and ?ns2.0 = "[(''tags'', PyNone)]"
       and a = "\<lparr>css_files = [''theme.css''], js_files = [''theme.js''], \<dots> = True\<rparr>"
       and b = "\<lparr>css_files = [''theme.css''], js_files = [''theme.js''], \<dots> = (7::nat)\<rparr>"
       and ?g1.0 = "[]" and ?g2.0 = "[(''tags'', PyNone)]"]
  by simp

section \<open>The epilog substitution\<close>

text \<open>The epilog holds one rule.\<close>

lemma rst_epilog_table: "substitution_table rst_epilog = [(''project'', ''CFSpy'')]"
  by (simp add: substitution_table_def rst_epilog_def rule_of_line_def List.map_filter_def)

text \<open>A reference at the head of the text, and one after text that has no bar.\<close>

lemma substitute_at_token:
  "tok \<noteq> [] \<Longrightarrow> substitute tok rep (tok @ post) = rep @ substitute tok rep post"
  by (cases tok) simp_all

lemma substitute_before_token:
  "tok \<noteq> [] \<Longrightarrow> hd tok \<notin> set pre \<Longrightarrow>
   substitute tok rep (pre @ tok @ post) = pre @ rep @ substitute tok rep post"
proof (induction pre)
  case Nil
  then show ?case by (simp add: substitute_at_token)
next
  case (Cons p pre)
  then have "\<not> prefix tok (p # pre @ tok @ post)"
    by (cases tok) auto
  with Cons show ?case by simp
qed

text \<open>
  What the output starts with, the input started with, as long as it does not hold the
  first character of the replacement.
\<close>

lemma substitute_prefix_back:
  "rep \<noteq> [] \<Longrightarrow> hd rep \<notin> set w \<Longrightarrow> prefix w (substitute tok rep s) \<Longrightarrow> prefix w s"
proof (induction w arbitrary: s)
  case Nil
  then show ?case by simp
next
  case (Cons a w)
  show ?case
  proof (cases s)
    case Nil
    with Cons.prems show ?thesis by simp
  next
    case (Cons c cs)
    show ?thesis
    proof (cases "tok \<noteq> [] \<and> prefix tok s")
      case True
      with Cons have "substitute tok rep s = rep @ substitute tok rep (drop (length tok) s)"
        by simp
      with Cons.prems(1,3) have "a = hd rep"
        by (cases rep) auto
      with Cons.prems(2) show ?thesis by simp
    next
      case False
      with Cons have eq: "substitute tok rep s = c # substitute tok rep cs"
        by auto
      with Cons.prems(3) have "a = c" and "prefix w (substitute tok rep cs)"
        by auto
      moreover from Cons.prems(2) have "hd rep \<notin> set w" by simp
      ultimately have "prefix w cs"
        using Cons.IH Cons.prems(1) by blast
      with \<open>a = c\<close> Cons show ?thesis by simp
    qed
  qed
qed

text \<open>
  No reference is left in the output when the token and the replacement cannot overlap.
\<close>

lemma substitute_no_token_left:
  assumes tok: "tok \<noteq> []" and rep: "rep \<noteq> []"
    and rt: "hd rep \<notin> set tok" and tr: "hd tok \<notin> set rep"
  shows "substitute tok rep s \<noteq> pre @ tok @ post"
proof (induction "length s" arbitrary: s pre post rule: less_induct)
  case less
  show ?case
  proof (cases s)
    case Nil
    with tok show ?thesis by simp
  next
    case (Cons c cs)
    show ?thesis
    proof (cases "prefix tok s")
      case True
      let ?rest = "drop (length tok) s"
      have short: "length ?rest < length s"
        using tok Cons by simp
      have eq: "substitute tok rep s = rep @ substitute tok rep ?rest"
        using True tok Cons by simp
      show ?thesis
      proof
        assume "substitute tok rep s = pre @ tok @ post"
        with eq have "rep @ substitute tok rep ?rest = pre @ tok @ post"
          by simp
        then obtain us where
          "(rep = pre @ us \<and> us @ substitute tok rep ?rest = tok @ post) \<or>
           (rep @ us = pre \<and> substitute tok rep ?rest = us @ tok @ post)"
          by (auto simp: append_eq_append_conv2)
        then show False
        proof
          assume a: "rep = pre @ us \<and> us @ substitute tok rep ?rest = tok @ post"
          then have r: "rep = pre @ us"
            and b: "us @ substitute tok rep ?rest = tok @ post"
            by (rule conjunct1, rule conjunct2)
          show False
          proof (cases us)
            case Nil
            with b have "substitute tok rep ?rest = [] @ tok @ post" by simp
            with less.hyps [OF short] show False by blast
          next
            case (Cons u us')
            with b tok have "hd tok = u" by (cases tok) auto
            with r Cons have "hd tok \<in> set rep" by simp
            with tr show False by simp
          qed
        next
          assume "rep @ us = pre \<and> substitute tok rep ?rest = us @ tok @ post"
          with less.hyps [OF short] show False by blast
        qed
      qed
    next
      case False
      with Cons have eq: "substitute tok rep s = c # substitute tok rep cs"
        by simp
      show ?thesis
      proof
        assume occ: "substitute tok rep s = pre @ tok @ post"
        show False
        proof (cases pre)
          case Nil
          with occ have "prefix tok (substitute tok rep s)" by simp
          with rep rt have "prefix tok s" by (rule substitute_prefix_back)
          with False show False by simp
        next
          case (Cons p pre')
          with occ eq have "substitute tok rep cs = pre' @ tok @ post" by simp
          moreover have "length cs < length s" using \<open>s = c # cs\<close> by simp
          ultimately show False using less.hyps by blast
        qed
      qed
    qed
  qed
qed

text \<open>Rendering with the declared epilog is the substitution of its one rule.\<close>

lemma render_rst_epilog:
  "render rst_epilog doc = substitute ''|project|'' ''CFSpy'' doc"
  by (simp add: render_def rst_epilog_table apply_rule_def)

text \<open>A split has at least one piece; joining pieces, one piece and one character at a time.\<close>

lemma split_on_nonempty: "split_on tok s \<noteq> []"
  by (induction tok s rule: split_on.induct) (auto split: list.splits)

lemma join_Cons: "ps \<noteq> [] \<Longrightarrow> join sep (p # ps) = p @ sep @ join sep ps"
  by (cases ps) simp_all

lemma join_head: "join sep ((c # p) # ps) = c # join sep (p # ps)"
  by (cases ps) simp_all

text \<open>
  Substituting is splitting at the token and joining around the replacement; joining
  around the token gives the document back.
\<close>

lemma substitute_join_split: "substitute tok rep s = join rep (split_on tok s)"
proof (induction tok rep s rule: substitute.induct)
  case (1 tok rep)
  show ?case by simp
next
  case (2 tok rep c cs)
  show ?case
  proof (cases "tok \<noteq> [] \<and> prefix tok (c # cs)")
    case True
    with 2 show ?thesis
      by (simp add: join_Cons split_on_nonempty)
  next
    case False
    obtain p ps where sp: "split_on tok cs = p # ps"
      using split_on_nonempty [of tok cs] by (cases "split_on tok cs") auto
    from False have "substitute tok rep (c # cs) = c # substitute tok rep cs"
      by auto
    moreover from False sp have "split_on tok (c # cs) = (c # p) # ps"
      by auto
    moreover from "2.IH"(2) [OF False] sp have "substitute tok rep cs = join rep (p # ps)"
      by simp
    ultimately show ?thesis
      by (simp add: join_head)
  qed
qed

lemma join_split_on: "join tok (split_on tok s) = s"
proof (induction tok s rule: split_on.induct)
  case (1 tok)
  show ?case by simp
next
  case (2 tok c cs)
  show ?case
  proof (cases "tok \<noteq> [] \<and> prefix tok (c # cs)")
    case True
    then have "tok @ drop (length tok) (c # cs) = c # cs"
      by (metis append_take_drop_id prefix_def append_eq_conv_conj)
    with True 2 show ?thesis
      by (simp add: join_Cons split_on_nonempty)
  next
    case False
    obtain p ps where sp: "split_on tok cs = p # ps"
      using split_on_nonempty [of tok cs] by (cases "split_on tok cs") auto
    from False sp have "split_on tok (c # cs) = (c # p) # ps"
      by auto
    moreover from "2.IH"(2) [OF False] sp have "join tok (p # ps) = cs"
      by simp
    ultimately show ?thesis
      by (simp add: join_head)
  qed
qed

text \<open>The first piece starts the document, and no piece holds the token.\<close>

lemma hd_split_on_prefix: "prefix (hd (split_on tok s)) s"
  by (induction tok s rule: split_on.induct) (auto split: list.splits)

lemma split_on_pieces_clean:
  "tok \<noteq> [] \<Longrightarrow> list_all (\<lambda>p. \<not> (\<exists>pre post. p = pre @ tok @ post)) (split_on tok s)"
proof (induction tok s rule: split_on.induct)
  case (1 tok)
  then show ?case by simp
next
  case (2 tok c cs)
  show ?case
  proof (cases "prefix tok (c # cs)")
    case True
    with 2 show ?thesis by simp
  next
    case False
    obtain p ps where sp: "split_on tok cs = p # ps"
      using split_on_nonempty [of tok cs] by (cases "split_on tok cs") auto
    from 2 False sp have ih: "list_all (\<lambda>p. \<not> (\<exists>pre post. p = pre @ tok @ post)) (p # ps)"
      by simp
    have pre: "prefix p cs"
      using hd_split_on_prefix [of tok cs] sp by simp
    have "\<not> (\<exists>pre post. c # p = pre @ tok @ post)"
    proof
      assume "\<exists>pre post. c # p = pre @ tok @ post"
      then obtain pre' post where occ: "c # p = pre' @ tok @ post" by blast
      show False
      proof (cases pre')
        case Nil
        with occ have "prefix tok (c # p)" by simp
        with pre have "prefix tok (c # cs)"
          by (meson Cons_prefix_Cons prefix_order.order_trans)
        with False show False by simp
      next
        case (Cons x xs)
        with occ have "p = xs @ tok @ post" by simp
        with ih show False by auto
      qed
    qed
    with ih False sp show ?thesis by simp
  qed
qed

text \<open>
  C5: the epilog defines exactly one rule, from \<open>project\<close> to \<open>CFSpy\<close>.
  Rendering any source text with it is the replacement of every reference
  \<open>|project|\<close> by \<open>CFSpy\<close>: the text splits at its references into pieces that
  hold no reference, and the output is these same pieces, as they are, with exactly
  \<open>CFSpy\<close> between two neighbours where the reference stood. No reference is left
  in the output. In particular a reference at the start, and one after text without a
  bar, is replaced on the spot.
\<close>

theorem epilog_substitution:
  "substitution_table rst_epilog = [(''project'', ''CFSpy'')]
   \<and> render rst_epilog doc = substitute ''|project|'' ''CFSpy'' doc
   \<and> join ''|project|'' (split_on ''|project|'' doc) = doc
   \<and> render rst_epilog doc = join ''CFSpy'' (split_on ''|project|'' doc)
   \<and> list_all (\<lambda>p. \<not> (\<exists>pre post. p = pre @ ''|project|'' @ post)) (split_on ''|project|'' doc)
   \<and> render rst_epilog (''|project|'' @ post) = ''CFSpy'' @ render rst_epilog post
   \<and> \<not> (\<exists>pre post. render rst_epilog doc = pre @ ''|project|'' @ post)
   \<and> (CHR ''|'' \<notin> set pre \<longrightarrow>
        render rst_epilog (pre @ ''|project|'' @ post) = pre @ ''CFSpy'' @ render rst_epilog post)"
proof -
  have 1: "substitution_table rst_epilog = [(''project'', ''CFSpy'')]"
    by (rule rst_epilog_table)
  have 2: "render rst_epilog doc = substitute ''|project|'' ''CFSpy'' doc"
    by (rule render_rst_epilog)
  have 3: "join ''|project|'' (split_on ''|project|'' doc) = doc"
    by (rule join_split_on)
  have 4: "render rst_epilog doc = join ''CFSpy'' (split_on ''|project|'' doc)"
    unfolding render_rst_epilog by (rule substitute_join_split)
  have 5: "list_all (\<lambda>p. \<not> (\<exists>pre post. p = pre @ ''|project|'' @ post))
             (split_on ''|project|'' doc)"
    by (rule split_on_pieces_clean) simp
  have 6: "render rst_epilog (''|project|'' @ post) = ''CFSpy'' @ render rst_epilog post"
    unfolding render_rst_epilog by (rule substitute_at_token) simp
  have 7: "\<not> (\<exists>pre post. render rst_epilog doc = pre @ ''|project|'' @ post)"
    unfolding render_rst_epilog
    using substitute_no_token_left [of "''|project|''" "''CFSpy''" doc] by simp
  have 8: "CHR ''|'' \<notin> set pre \<longrightarrow>
        render rst_epilog (pre @ ''|project|'' @ post) = pre @ ''CFSpy'' @ render rst_epilog post"
    unfolding render_rst_epilog
    using substitute_before_token [of "''|project|''" pre "''CFSpy''" post] by simp
  from 1 2 3 4 5 6 7 8 show ?thesis by blast
qed

text \<open>
  The same on a sentence with one reference, and on a document with a stray bar before
  its reference.
\<close>

theorem epilog_substitution_witness:
  "CHR ''|'' \<notin> set ''Welcome to ''
   \<and> render rst_epilog (''Welcome to '' @ ''|project|'' @ '' docs'') = ''Welcome to CFSpy docs''
   \<and> split_on ''|project|'' ''a|b |project| c'' = [''a|b '', '' c'']
   \<and> render rst_epilog ''a|b |project| c'' = ''a|b CFSpy c''"
  using epilog_substitution
    [where pre = "''Welcome to ''" and post = "'' docs''" and doc = "''a|b |project| c''"]
  by (simp add: render_rst_epilog)

end
